theory Spec2Isabelle
  imports Complex_Main
begin

section \<open>Conventions of the embedding\<close>

text \<open>
  The TypeScript sources of the request/payment orchestration engine are embedded as
  HOL functions.

  \<^item> Every class becomes a record of its mutable fields, every interface a record.
  \<^item> A public \<^verbatim>\<open>async\<close> method becomes a function from the state of its object to
    \<open>error + result \<times> state\<close>: \<open>Inl e\<close> is a rejected promise (an exception reaching
    the caller), \<open>Inr (v, s)\<close> a resolved one with the state it leaves. At every point
    where the modelled code raises, nothing has been mutated yet inside the enclosing
    \<^verbatim>\<open>try\<close>, so a raised error does not need to carry a state. A private helper in
    which nothing can raise, or which catches all it raises, returns its result and
    the new state directly.
  \<^item> \<^verbatim>\<open>Date.now()\<close>, the blockchain RPC client and the faults of the durable
    storage are inputs of the environment, passed as arguments.
  \<^item> Time stamps are milliseconds as \<open>int\<close>. The numbers that the source computes with
    are IEEE 754 binary64 values, the type \<open>double\<close> below: every operation rounds to
    the nearest value, ties to even, and there are the infinities, \<^verbatim>\<open>NaN\<close> and the
    negative zero.
  \<^item> An object that two holders share is held by each of them as a copy that carries the
    object's identity; an assignment to a field of the object is made in every copy.
  \<^item> The logger is left out: it is an external collaborator and no result depends on it.
\<close>

datatype error = Error (message: string)

datatype status = pending | completed | failed

section \<open>Numbers\<close>

text \<open>
  A JavaScript number. \<open>Fin r\<close> is the finite value \<open>r\<close>, \<open>Fin 0\<close> the positive zero.
\<close>

datatype double = Fin rat | NegZero | PosInf | NegInf | NaN

text \<open>
  The number of binary digits of a positive integer, the powers of two, and the exponent
  \<open>e\<close> with \<open>2^e \<le> a < 2^(e+1)\<close> of a positive rational \<open>a\<close>.
\<close>

function bitlen :: "int \<Rightarrow> nat" where
  "bitlen i = (if i \<le> 0 then 0 else Suc (bitlen (i div 2)))"
  by pat_completeness auto
termination
  by (relation "measure nat") auto

declare bitlen.simps [simp del]

definition pow2 :: "int \<Rightarrow> rat" where
  "pow2 e = (if e \<ge> 0 then 2 ^ nat e else 1 / 2 ^ nat (- e))"

definition floorlog2 :: "rat \<Rightarrow> int" where
  "floorlog2 a =
     (let (p, q) = quotient_of a;
          d = int (bitlen p) - int (bitlen q)
      in if pow2 d \<le> a then d else d - 1)"

text \<open>Rounding to the nearest integer, a tie to the even one.\<close>

definition round_half_even :: "rat \<Rightarrow> int" where
  "round_half_even q =
     (let f = \<lfloor>q\<rfloor>; r = q - of_int f
      in if r < 1 / 2 then f else if r > 1 / 2 then f + 1 else if even f then f else f + 1)"

text \<open>
  The binary64 value nearest to a rational: 53 significant bits, subnormal below
  \<open>2^-1022\<close> (steps of \<open>2^-1074\<close>), an infinity from \<open>2^1024\<close> on, and a zero
  that keeps the sign.
\<close>

definition round64 :: "rat \<Rightarrow> double" where
  "round64 x =
     (if x = 0 then Fin 0
      else
        (let a = \<bar>x\<bar>;
             e = max (floorlog2 a) (- 1022);
             ulp = pow2 (e - 52);
             n = round_half_even (a / ulp)
         in if e > 1023 then (if x > 0 then PosInf else NegInf)
            else if e = 1023 \<and> n \<ge> 9007199254740992 then (if x > 0 then PosInf else NegInf)
            else if n = 0 then (if x > 0 then Fin 0 else NegZero)
            else Fin (if x > 0 then of_int n * ulp else - (of_int n * ulp))))"

text \<open>The sign bit, the finite value, and the tests that the operations below use.\<close>

definition is_neg :: "double \<Rightarrow> bool" where
  "is_neg d = (case d of Fin r \<Rightarrow> r < 0 | NegZero \<Rightarrow> True | PosInf \<Rightarrow> False | NegInf \<Rightarrow> True | NaN \<Rightarrow> False)"

definition fin_val :: "double \<Rightarrow> rat" where
  "fin_val d = (case d of Fin r \<Rightarrow> r | NegZero \<Rightarrow> 0 | PosInf \<Rightarrow> 0 | NegInf \<Rightarrow> 0 | NaN \<Rightarrow> 0)"

definition is_inf :: "double \<Rightarrow> bool" where
  "is_inf d = (d = PosInf \<or> d = NegInf)"

definition is_zero :: "double \<Rightarrow> bool" where
  "is_zero d = (d = Fin 0 \<or> d = NegZero)"

definition signed_inf :: "bool \<Rightarrow> double" where
  "signed_inf neg = (if neg then NegInf else PosInf)"

definition signed_zero :: "bool \<Rightarrow> double" where
  "signed_zero neg = (if neg then NegZero else Fin 0)"

text \<open>
  The operators \<^verbatim>\<open>-\<close>, \<^verbatim>\<open>Math.abs\<close>, \<^verbatim>\<open>/\<close>, \<^verbatim>\<open><=\<close> and \<^verbatim>\<open>>\<close> on numbers,
  as IEEE 754 defines them: \<^verbatim>\<open>NaN\<close> spreads and compares false, a division by zero
  gives an infinity, or \<^verbatim>\<open>NaN\<close> for a zero dividend.
\<close>

definition dsub :: "double \<Rightarrow> double \<Rightarrow> double" where
  "dsub a b =
     (if a = NaN \<or> b = NaN then NaN
      else if is_inf a then (if a = b then NaN else a)
      else if is_inf b then signed_inf (b = PosInf)
      else if fin_val a - fin_val b = 0 then signed_zero (a = NegZero \<and> b = Fin 0)
      else round64 (fin_val a - fin_val b))"

definition dabs :: "double \<Rightarrow> double" where
  "dabs a = (case a of Fin r \<Rightarrow> Fin \<bar>r\<bar> | NegZero \<Rightarrow> Fin 0 | PosInf \<Rightarrow> PosInf | NegInf \<Rightarrow> PosInf | NaN \<Rightarrow> NaN)"

definition ddiv :: "double \<Rightarrow> double \<Rightarrow> double" where
  "ddiv a b =
     (if a = NaN \<or> b = NaN then NaN
      else if is_inf a then (if is_inf b then NaN else signed_inf (is_neg a \<noteq> is_neg b))
      else if is_inf b then signed_zero (is_neg a \<noteq> is_neg b)
      else if is_zero b then (if is_zero a then NaN else signed_inf (is_neg a \<noteq> is_neg b))
      else if is_zero a then signed_zero (is_neg a \<noteq> is_neg b)
      else round64 (fin_val a / fin_val b))"

definition dle :: "double \<Rightarrow> double \<Rightarrow> bool" where
  "dle a b =
     (if a = NaN \<or> b = NaN then False
      else if a = NegInf \<or> b = PosInf then True
      else if a = PosInf \<or> b = NegInf then False
      else fin_val a \<le> fin_val b)"

definition dgt :: "double \<Rightarrow> double \<Rightarrow> bool" where
  "dgt a b = (if a = NaN \<or> b = NaN then False else if dle a b then False else True)"

text \<open>
  \<^verbatim>\<open>parseFloat\<close>: white space is skipped, then the longest prefix that is a decimal
  literal (a sign, \<^verbatim>\<open>Infinity\<close>, or digits with an optional fraction and exponent) is
  read and rounded; with no such prefix the result is \<^verbatim>\<open>NaN\<close>. White space is the
  ASCII one.
\<close>

definition is_digit :: "char \<Rightarrow> bool" where
  "is_digit c = (let n = (of_char c :: nat) in 48 \<le> n \<and> n \<le> 57)"

definition is_space :: "char \<Rightarrow> bool" where
  "is_space c = (let n = (of_char c :: nat) in n = 32 \<or> (9 \<le> n \<and> n \<le> 13))"

definition decimal :: "string \<Rightarrow> int" where
  "decimal ds = foldl (\<lambda>n c. 10 * n + (of_char c - 48)) 0 ds"

definition pow10 :: "int \<Rightarrow> rat" where
  "pow10 e = (if e \<ge> 0 then 10 ^ nat e else 1 / 10 ^ nat (- e))"

definition strip_sign :: "string \<Rightarrow> bool \<times> string" where
  "strip_sign t =
     (case t of
        [] \<Rightarrow> (False, [])
      | c # r \<Rightarrow> if c = CHR ''-'' then (True, r) else if c = CHR ''+'' then (False, r) else (False, t))"

definition exponent_part :: "string \<Rightarrow> int" where
  "exponent_part t =
     (case t of
        [] \<Rightarrow> 0
      | c # r \<Rightarrow>
          if c = CHR ''e'' \<or> c = CHR ''E''
          then (let (neg, r') = strip_sign r; ds = takeWhile is_digit r'
                in if ds = [] then 0 else if neg then - decimal ds else decimal ds)
          else 0)"

definition parseFloat :: "string \<Rightarrow> double" where
  "parseFloat t =
     (let (neg, s) = strip_sign (dropWhile is_space t)
      in if take 8 s = ''Infinity'' then signed_inf neg
         else
           (let ip = takeWhile is_digit s;
                r1 = dropWhile is_digit s;
                fp = (case r1 of [] \<Rightarrow> [] | c # r \<Rightarrow> if c = CHR ''.'' then takeWhile is_digit r else []);
                r2 = (case r1 of [] \<Rightarrow> [] | c # r \<Rightarrow> if c = CHR ''.'' then dropWhile is_digit r else r1)
            in if ip = [] \<and> fp = [] then NaN
               else if decimal (ip @ fp) = 0 then signed_zero neg
               else
                 (let v = of_int (decimal (ip @ fp)) * pow10 (exponent_part r2 - int (length fp))
                  in round64 (if neg then - v else v))))"

text \<open>
  \<^verbatim>\<open>parseFloat(web3.utils.fromWei(w, 'ether'))\<close> for an amount \<open>w\<close> of wei: \<^verbatim>\<open>fromWei\<close>
  prints the exact decimal text of \<open>w / 10^18\<close>, \<^verbatim>\<open>parseFloat\<close> rounds it.
\<close>

definition ether_of_wei :: "int \<Rightarrow> double" where
  "ether_of_wei w = round64 (of_int w / 10 ^ 18)"

section \<open>Data model\<close>

text \<open>\<^verbatim>\<open>walletAddresses\<close> of \<^verbatim>\<open>PaymentDetails\<close> (src/services/payment.ts).\<close>

record walletAddresses =
  btc :: string
  eth :: string
  sol :: string
  usdt :: string

text \<open>
  \<^verbatim>\<open>interface PaymentDetails\<close> (src/services/payment.ts, lines 7-20). \<open>amount\<close> is a
  finite number, read as the double nearest to it. \<open>object_id\<close> is not a field of the
  source: it is the identity of the JavaScript object, which the ledger and the request
  store share (\<^verbatim>\<open>handleMention\<close> stores the object that \<^verbatim>\<open>createPaymentRequest\<close>
  returned).
\<close>

record PaymentDetails =
  orderId :: string
  amount :: rat
  userId :: string
  tweetId :: string
  walletAddresses :: walletAddresses
  status :: status
  timestamp :: int
  object_id :: string

text \<open>
  \<^verbatim>\<open>interface StoredRequest\<close> (src/services/storage.ts, lines 3-19). The field
  \<^verbatim>\<open>payment\<close> holds the object made by \<^verbatim>\<open>createPaymentRequest\<close>; the fields that
  share a name with \<^verbatim>\<open>PaymentDetails\<close> carry the prefix \<open>req_\<close>.
\<close>

record StoredRequest =
  req_tweetId :: string
  req_userId :: string
  prompt :: string
  payment :: PaymentDetails
  req_timestamp :: int

text \<open>
  \<^verbatim>\<open>interface SystemState\<close> (src/utils/recovery.ts): the checkpoint that is serialised
  with \<^verbatim>\<open>JSON.stringify\<close>. The two sequences are \<^verbatim>\<open>any[]\<close>; an element \<open>None\<close>
  stands for an entry such as \<^verbatim>\<open>null\<close>, on which every property access raises a
  \<^verbatim>\<open>TypeError\<close>.
\<close>

record SystemState =
  cp_timestamp :: int
  pendingRequests :: "StoredRequest option list"
  pendingPayments :: "PaymentDetails option list"
  activeServices :: "string list"

text \<open>
  What a key of the durable key-value storage holds. A text that the source writes is
  represented by the value it encodes: \<open>Number d\<close> is the text of \<^verbatim>\<open>d.toString()\<close>,
  which \<^verbatim>\<open>parseFloat\<close> reads back as \<open>d\<close>, and \<open>Json st\<close> the text of
  \<^verbatim>\<open>JSON.stringify(state)\<close>, which starts with a brace. \<open>Text t\<close> is any other text
  \<open>t\<close>; it is not the text of a checkpoint.
\<close>

datatype stored_value = Number double | Json SystemState | Text string

text \<open>
  \<^verbatim>\<open>class StorageService\<close> (src/services/storage.ts). \<^verbatim>\<open>requests\<close> is a JavaScript
  \<^verbatim>\<open>Map\<close> keyed by \<^verbatim>\<open>request.tweetId\<close>; it iterates in insertion order, so it is the
  list of its values in that order, the key of an entry being its \<open>req_tweetId\<close>. No
  two stored requests hold the same payment object (each request is made by an object
  literal in \<^verbatim>\<open>handleMention\<close>, around a new payment, or by \<^verbatim>\<open>JSON.parse\<close>).
  \<open>kv\<close> is the state behind \<^verbatim>\<open>getValue\<close>/\<^verbatim>\<open>setValue\<close>.
\<close>

record StorageService =
  requests :: "StoredRequest list"
  kv :: "string \<rightharpoonup> stored_value"

text \<open>
  The environment of one call: the clock, the two RPC calls of the web3 client, and
  whether the durable storage fails on a read or on a write.
  \<open>getTransaction h\<close> is \<^verbatim>\<open>web3.eth.getTransaction(h)\<close>: it raises (as every call does
  when no RPC URL is configured), or yields no transaction, or the recipient
  (\<^verbatim>\<open>tx.to\<close>, which may be absent) and \<^verbatim>\<open>tx.value\<close>, an amount of wei.
  \<open>getBalance a\<close> is \<^verbatim>\<open>web3.eth.getBalance(a)\<close>, an amount of wei.
\<close>

record env =
  now :: int
  getTransaction :: "string \<Rightarrow> error + (string option \<times> int) option"
  getBalance :: "string \<Rightarrow> error + int"
  getValueFails :: bool
  setValueFails :: bool

section \<open>StorageService\<close>



text \<open>\<^verbatim>\<open>getRequest\<close> (lines 48-50).\<close>

definition getRequest :: "string \<Rightarrow> StorageService \<Rightarrow> StoredRequest option" where
  "getRequest tid s = find (\<lambda>r. req_tweetId r = tid) (requests s)"

text \<open>
  The loop of \<^verbatim>\<open>updatePaymentStatus\<close> (lines 56-62): the first request, in iteration
  order, whose \<^verbatim>\<open>payment.orderId\<close> is the given one gets the status, and the loop
  breaks. Setting the request again under its own key changes nothing.
\<close>

fun update_first :: "string \<Rightarrow> status \<Rightarrow> StoredRequest list \<Rightarrow> StoredRequest list" where
  "update_first oid st [] = []"
| "update_first oid st (r # rs) =
     (if orderId (payment r) = oid
      then r\<lparr>payment := (payment r)\<lparr>status := st\<rparr>\<rparr> # rs
      else r # update_first oid st rs)"

definition updatePaymentStatus :: "string \<Rightarrow> status \<Rightarrow> StorageService \<Rightarrow> error + unit \<times> StorageService" where
  "updatePaymentStatus oid st s = Inr ((), s\<lparr>requests := update_first oid st (requests s)\<rparr>)"

text \<open>
  Modelled from the spec: \<^verbatim>\<open>getValue\<close> of \<^verbatim>\<open>StorageService\<close> is called by the
  payment service and the recovery system but is not in src/services/storage.ts. The spec
  gives the durable storage as \<^verbatim>\<open>get(key) -> bytes|absent\<close>, an external capability
  that may fail.
\<close>

definition getValue :: "env \<Rightarrow> string \<Rightarrow> StorageService \<Rightarrow> error + stored_value option" where
  "getValue e k s = (if getValueFails e then Inl (Error ''storage read failed'') else Inr (kv s k))"

text \<open>
  Modelled from the spec: \<^verbatim>\<open>setValue\<close> of \<^verbatim>\<open>StorageService\<close> is called by the
  payment service and the recovery system but is not in src/services/storage.ts. The spec
  gives it as \<^verbatim>\<open>set(key, bytes)\<close> of the same capability.
\<close>

definition setValue :: "env \<Rightarrow> string \<Rightarrow> stored_value \<Rightarrow> StorageService \<Rightarrow> error + unit \<times> StorageService" where
  "setValue e k v s =
     (if setValueFails e then Inl (Error ''storage write failed'')
      else Inr ((), s\<lparr>kv := (kv s)(k \<mapsto> v)\<rparr>))"



section \<open>RateLimiter\<close>

text \<open>\<^verbatim>\<open>interface RateLimit\<close> and \<^verbatim>\<open>class RateLimiter\<close> (src/utils/rateLimiter.ts).\<close>

record RateLimit =
  count :: int
  resetTime :: int

record RateLimiter =
  limits :: "string \<rightharpoonup> RateLimit"
  maxRequestsPerHour :: int

text \<open>\<^verbatim>\<open>checkLimit\<close> (lines 19-40); the first argument is \<^verbatim>\<open>Date.now()\<close>.\<close>

definition checkLimit :: "int \<Rightarrow> string \<Rightarrow> RateLimiter \<Rightarrow> bool \<times> RateLimiter" where
  "checkLimit t uid s =
     (let fresh = (True, s\<lparr>limits := (limits s)(uid \<mapsto> \<lparr>count = 1, resetTime = t + 60 * 60 * 1000\<rparr>)\<rparr>)
      in case limits s uid of
           None \<Rightarrow> fresh
         | Some userLimit \<Rightarrow>
             if t > resetTime userLimit then fresh
             else if count userLimit \<ge> maxRequestsPerHour s then (False, s)
             else (True, s\<lparr>limits := (limits s)(uid \<mapsto> userLimit\<lparr>count := count userLimit + 1\<rparr>)\<rparr>))"

text \<open>\<^verbatim>\<open>getTimeUntilReset\<close> (lines 42-48) and \<^verbatim>\<open>cleanup\<close> (lines 50-57).\<close>

definition getTimeUntilReset :: "int \<Rightarrow> string \<Rightarrow> RateLimiter \<Rightarrow> int" where
  "getTimeUntilReset t uid s =
     (case limits s uid of None \<Rightarrow> 0 | Some userLimit \<Rightarrow> max 0 (resetTime userLimit - t))"

definition cleanup :: "int \<Rightarrow> RateLimiter \<Rightarrow> RateLimiter" where
  "cleanup t s =
     s\<lparr>limits := (\<lambda>uid. case limits s uid of
                         None \<Rightarrow> None
                       | Some l \<Rightarrow> if t > resetTime l then None else Some l)\<rparr>"

text \<open>
  A run of consecutive \<^verbatim>\<open>checkLimit\<close> calls for one identity, one per time of the list,
  with the answers in call order.
\<close>

fun checkLimit_calls :: "string \<Rightarrow> int list \<Rightarrow> RateLimiter \<Rightarrow> bool list \<times> RateLimiter" where
  "checkLimit_calls uid [] s = ([], s)"
| "checkLimit_calls uid (t # ts) s =
     (let (allowed, s1) = checkLimit t uid s;
          (rest, s2) = checkLimit_calls uid ts s1
      in (allowed # rest, s2))"

section \<open>QueueManager\<close>

text \<open>
  \<^verbatim>\<open>interface QueueTask\<close> (src/unnamed/part_002, lines 3-7). The operation \<^verbatim>\<open>task\<close> is an opaque
  asynchronous action; \<open>task t n\<close> is the outcome of its invocation number \<open>n\<close>, counted
  from 0: \<open>Inr ()\<close> when the promise resolves, \<open>Inl e\<close> when it rejects. The loop invokes
  a task for the \<open>n\<close>-th time exactly when its \<^verbatim>\<open>retries\<close> is \<open>n\<close>: \<^verbatim>\<open>addTask\<close> starts
  it at 0 and each failed invocation that is retried adds one.
\<close>

record QueueTask =
  task_id :: string
  task :: "nat \<Rightarrow> error + unit"
  retries :: nat

text \<open>
  \<^verbatim>\<open>class QueueManager\<close>. \<open>executed\<close> is not a field of the source: it records the id
  of a task each time \<^verbatim>\<open>executeTask\<close> invokes its operation, in order.
\<close>

record QueueManager =
  queue :: "QueueTask list"
  processing :: bool
  executed :: "string list"

definition maxRetries :: nat where
  "maxRetries = 3"

definition retryDelay :: int where
  "retryDelay = 5000"

text \<open>
  \<^verbatim>\<open>addTask\<close> (lines 20-27) up to its return: the push. The call of \<^verbatim>\<open>processQueue\<close>
  that it triggers when idle is not awaited; that loop is suspended at its first
  \<^verbatim>\<open>await\<close> while further tasks are pushed and reads \<^verbatim>\<open>this.queue\<close> again at every
  iteration.
\<close>

definition addTask :: "string \<Rightarrow> (nat \<Rightarrow> error + unit) \<Rightarrow> QueueManager \<Rightarrow> QueueManager" where
  "addTask i op q = q\<lparr>queue := queue q @ [\<lparr>task_id = i, task = op, retries = 0\<rparr>]\<rparr>"

text \<open>\<^verbatim>\<open>executeTask\<close> (lines 55-63): awaits the operation, logs, and rethrows its error.\<close>

definition executeTask :: "QueueTask \<Rightarrow> error + unit" where
  "executeTask t = (case task t (retries t) of Inl err \<Rightarrow> Inl err | Inr u \<Rightarrow> Inr u)"

text \<open>The \<^verbatim>\<open>while\<close> loop of \<^verbatim>\<open>processQueue\<close> (lines 34-50).\<close>

function while_queue :: "QueueManager \<Rightarrow> QueueManager" where
  "while_queue q =
     (case queue q of
        [] \<Rightarrow> q
      | currentTask # rest \<Rightarrow>
          (case executeTask currentTask of
             Inr u \<Rightarrow>
               while_queue (q\<lparr>queue := rest, executed := executed q @ [task_id currentTask]\<rparr>)
           | Inl err \<Rightarrow>
               if retries currentTask < maxRetries
               then while_queue (q\<lparr>queue := currentTask\<lparr>retries := retries currentTask + 1\<rparr> # rest,
                                   executed := executed q @ [task_id currentTask]\<rparr>)
               else while_queue (q\<lparr>queue := rest, executed := executed q @ [task_id currentTask]\<rparr>)))"
  by pat_completeness auto
termination
  by (relation "measure (\<lambda>q. \<Sum>t\<leftarrow>queue q. Suc (Suc maxRetries - retries t))") auto

declare while_queue.simps [simp del]

text \<open>\<^verbatim>\<open>processQueue\<close> (lines 29-53).\<close>

definition processQueue :: "QueueManager \<Rightarrow> error + unit \<times> QueueManager" where
  "processQueue q =
     (if processing q \<or> queue q = [] then Inr ((), q)
      else Inr ((), (while_queue (q\<lparr>processing := True\<rparr>))\<lparr>processing := False\<rparr>))"

section \<open>PaymentService\<close>

text \<open>\<^verbatim>\<open>interface PaymentRetryConfig\<close> and \<^verbatim>\<open>interface PaymentError\<close>
  (src/services/payment.ts, lines 22-33).\<close>

record PaymentRetryConfig =
  maxAttempts :: nat
  delayBetweenAttempts :: int
  maxVerificationTime :: int

record PaymentError =
  err_orderId :: string
  err_error :: string
  attempts :: nat
  lastAttempt :: int

text \<open>
  \<^verbatim>\<open>class PaymentService\<close>: the two maps and the storage service it is constructed with.
  \<open>created\<close> is not a field of the source: it counts the payment objects made so far and
  numbers the next one.
\<close>

record PaymentService =
  payments :: "string \<rightharpoonup> PaymentDetails"
  failedPayments :: "string \<rightharpoonup> PaymentError"
  storageService :: StorageService
  created :: nat

text \<open>The configuration set by the constructor (lines 50-54).\<close>

definition retryConfig :: PaymentRetryConfig where
  "retryConfig = \<lparr>maxAttempts = 3, delayBetweenAttempts = 5 * 60 * 1000,
                  maxVerificationTime = 30 * 60 * 1000\<rparr>"

text \<open>Decimal text of a number, as a template literal prints \<^verbatim>\<open>Date.now()\<close>.\<close>

fun string_of_nat :: "nat \<Rightarrow> string" where
  "string_of_nat n =
     (if n < 10 then [char_of (48 + n)]
      else string_of_nat (n div 10) @ [char_of (48 + n mod 10)])"

declare string_of_nat.simps [simp del]

definition string_of_int :: "int \<Rightarrow> string" where
  "string_of_int i = (if i < 0 then CHR ''-'' # string_of_nat (nat (- i)) else string_of_nat (nat i))"

text \<open>
  \<^verbatim>\<open>createPaymentRequest\<close> (lines 65-92). The wallet addresses come from the process
  environment and are an argument. \<^verbatim>\<open>userId.slice(-4)\<close> is the last four characters,
  or the whole text when it is shorter.
\<close>

definition createPaymentRequest ::
  "env \<Rightarrow> walletAddresses \<Rightarrow> string \<Rightarrow> string \<Rightarrow> PaymentService \<Rightarrow> error + PaymentDetails \<times> PaymentService" where
  "createPaymentRequest e wallets uid tid s =
     (let oid = ''PAY-'' @ string_of_int (now e) @ ''-'' @ drop (length uid - 4) uid;
          p = \<lparr>orderId = oid, amount = 10, userId = uid, tweetId = tid,
               walletAddresses = wallets, status = pending, timestamp = now e,
               object_id = string_of_nat (created s)\<rparr>
      in Inr (p, s\<lparr>payments := (payments s)(oid \<mapsto> p), created := created s + 1\<rparr>))"

text \<open>\<^verbatim>\<open>hasPaymentExpired\<close> (lines 235-239).\<close>

definition hasPaymentExpired :: "env \<Rightarrow> PaymentDetails \<Rightarrow> bool" where
  "hasPaymentExpired e p =
     (let paymentAge = now e - timestamp p in paymentAge > maxVerificationTime retryConfig)"

text \<open>\<^verbatim>\<open>getEtherPrice\<close> (lines 241-243).\<close>

definition getEtherPrice :: double where
  "getEtherPrice = Fin 2000"

text \<open>\<^verbatim>\<open>String.prototype.toLowerCase\<close> on the ASCII letters of an address.\<close>

definition toLowerCase :: "string \<Rightarrow> string" where
  "toLowerCase t =
     map (\<lambda>c. let n = (of_char c :: nat) in if 65 \<le> n \<and> n \<le> 90 then char_of (n + 32) else c) t"

text \<open>
  The comparison of line 127,
  \<^verbatim>\<open>Math.abs(parseFloat(amount) - expectedAmount) / expectedAmount <= 0.05\<close>, computed in
  doubles operation by operation; \<^verbatim>\<open>0.05\<close> is the double nearest to 5/100.
\<close>

definition within_tolerance :: "double \<Rightarrow> double \<Rightarrow> bool" where
  "within_tolerance amount_sent expectedAmount =
     dle (ddiv (dabs (dsub amount_sent expectedAmount)) expectedAmount) (round64 (5 / 100))"

text \<open>
  \<^verbatim>\<open>verifyEthereumTransaction\<close> (lines 114-132). Every error is caught and gives
  \<^verbatim>\<open>false\<close>.
\<close>

definition verifyEthereumTransaction :: "env \<Rightarrow> string \<Rightarrow> PaymentDetails \<Rightarrow> bool" where
  "verifyEthereumTransaction e txHash p =
     (case getTransaction e txHash of
        Inl err \<Rightarrow> False
      | Inr None \<Rightarrow> False
      | Inr (Some (tx_to, tx_value)) \<Rightarrow>
          if map_option toLowerCase tx_to \<noteq> Some (toLowerCase (eth (walletAddresses p))) then False
          else
            (let amount_sent = ether_of_wei tx_value;
                 etherPrice = getEtherPrice;
                 expectedAmount = ddiv (round64 (amount p)) etherPrice
             in within_tolerance amount_sent expectedAmount))"

text \<open>
  \<^verbatim>\<open>parseFloat(v || '0')\<close> on what \<^verbatim>\<open>getValue\<close> returned: an absent value and the
  empty text are replaced by \<^verbatim>\<open>'0'\<close>.
\<close>

definition parseFloat_or_0 :: "stored_value option \<Rightarrow> double" where
  "parseFloat_or_0 v =
     (case v of
        None \<Rightarrow> Fin 0
      | Some (Number d) \<Rightarrow> d
      | Some (Json st) \<Rightarrow> NaN
      | Some (Text t) \<Rightarrow> if t = [] then Fin 0 else parseFloat t)"

text \<open>The text of \<^verbatim>\<open>currentBalance.toString()\<close>; the negative zero prints as \<^verbatim>\<open>0\<close>.\<close>

definition number_toString :: "double \<Rightarrow> stored_value" where
  "number_toString d = Number (if d = NegZero then Fin 0 else d)"

text \<open>
  \<^verbatim>\<open>checkPaymentAddresses\<close> (lines 134-147). Every error is caught and gives
  \<^verbatim>\<open>false\<close>.
\<close>

definition checkPaymentAddresses :: "env \<Rightarrow> PaymentDetails \<Rightarrow> StorageService \<Rightarrow> bool \<times> StorageService" where
  "checkPaymentAddresses e p st =
     (let k = ''balance_'' @ eth (walletAddresses p)
      in case getBalance e (eth (walletAddresses p)) of
           Inl err \<Rightarrow> (False, st)
         | Inr balance \<Rightarrow>
             (let currentBalance = ether_of_wei balance
              in case getValue e k st of
                   Inl err \<Rightarrow> (False, st)
                 | Inr v \<Rightarrow>
                     (let lastBalance = parseFloat_or_0 v
                      in case setValue e k (number_toString currentBalance) st of
                           Inl err \<Rightarrow> (False, st)
                         | Inr (u, st') \<Rightarrow> (dgt currentBalance lastBalance, st'))))"

text \<open>
  The assignment \<^verbatim>\<open>o.status = st\<close> to the payment object \<open>o\<close> of the given identity, as
  the holders of the object see it: the ledger's map and the stored requests.
\<close>

definition assign_in_ledger ::
  "string \<Rightarrow> status \<Rightarrow> (string \<rightharpoonup> PaymentDetails) \<Rightarrow> (string \<rightharpoonup> PaymentDetails)" where
  "assign_in_ledger i st m =
     (\<lambda>k. case m k of
             None \<Rightarrow> None
           | Some q \<Rightarrow> if object_id q = i then Some (q\<lparr>status := st\<rparr>) else Some q)"

definition assign_in_store :: "string \<Rightarrow> status \<Rightarrow> StoredRequest list \<Rightarrow> StoredRequest list" where
  "assign_in_store i st rs =
     map (\<lambda>r. if object_id (payment r) = i then r\<lparr>payment := (payment r)\<lparr>status := st\<rparr>\<rparr> else r) rs"

text \<open>
  \<^verbatim>\<open>payment.status = st\<close> followed by \<^verbatim>\<open>this.payments.set(payment.orderId, payment)\<close>:
  the assignment shows wherever the object is held, and the object is set under its own
  order id.
\<close>

definition set_status :: "PaymentDetails \<Rightarrow> status \<Rightarrow> PaymentService \<Rightarrow> PaymentService" where
  "set_status p st s =
     s\<lparr>payments := (assign_in_ledger (object_id p) st (payments s))(orderId p \<mapsto> p\<lparr>status := st\<rparr>),
       storageService :=
         (storageService s)\<lparr>requests := assign_in_store (object_id p) st (requests (storageService s))\<rparr>\<rparr>"

text \<open>
  The call \<^verbatim>\<open>await this.storageService.updatePaymentStatus(orderId, st)\<close>; it never
  rejects. The request it finds may hold an object of the ledger, which then sees the
  assignment too.
\<close>

definition storage_update :: "string \<Rightarrow> status \<Rightarrow> PaymentService \<Rightarrow> PaymentService" where
  "storage_update oid st s =
     (case updatePaymentStatus oid st (storageService s) of
        Inl err \<Rightarrow> s
      | Inr (u, st') \<Rightarrow>
          (case find (\<lambda>r. orderId (payment r) = oid) (requests (storageService s)) of
             None \<Rightarrow> s\<lparr>storageService := st'\<rparr>
           | Some r \<Rightarrow>
               s\<lparr>storageService := st',
                 payments := assign_in_ledger (object_id (payment r)) st (payments s)\<rparr>))"

text \<open>\<^verbatim>\<open>handleSuccessfulPayment\<close> (lines 177-184).\<close>

definition handleSuccessfulPayment :: "PaymentDetails \<Rightarrow> PaymentService \<Rightarrow> PaymentService" where
  "handleSuccessfulPayment p s =
     (let s1 = set_status p completed s;
          s2 = s1\<lparr>failedPayments := (failedPayments s1)(orderId p := None)\<rparr>
      in storage_update (orderId p) completed s2)"

text \<open>\<^verbatim>\<open>handleFailedVerification\<close> (lines 186-200).\<close>

definition handleFailedVerification :: "env \<Rightarrow> PaymentDetails \<Rightarrow> PaymentService \<Rightarrow> PaymentService" where
  "handleFailedVerification e p s =
     s\<lparr>failedPayments := (failedPayments s)(orderId p \<mapsto>
          \<lparr>err_orderId = orderId p, err_error = ''Payment verification failed'',
           attempts = (case failedPayments s (orderId p) of Some f \<Rightarrow> attempts f + 1 | None \<Rightarrow> 1),
           lastAttempt = now e\<rparr>)\<rparr>"

text \<open>\<^verbatim>\<open>handleMaxRetriesExceeded\<close> (lines 202-208) and \<^verbatim>\<open>handleExpiredPayment\<close>
  (lines 210-216).\<close>

definition handleMaxRetriesExceeded :: "PaymentDetails \<Rightarrow> PaymentService \<Rightarrow> PaymentService" where
  "handleMaxRetriesExceeded p s = storage_update (orderId p) failed (set_status p failed s)"

definition handleExpiredPayment :: "PaymentDetails \<Rightarrow> PaymentService \<Rightarrow> PaymentService" where
  "handleExpiredPayment p s = storage_update (orderId p) failed (set_status p failed s)"

text \<open>\<^verbatim>\<open>handlePaymentError\<close> (lines 218-233).\<close>

definition handlePaymentError :: "env \<Rightarrow> string \<Rightarrow> error \<Rightarrow> PaymentService \<Rightarrow> PaymentService" where
  "handlePaymentError e oid err s =
     s\<lparr>failedPayments := (failedPayments s)(oid \<mapsto>
          \<lparr>err_orderId = oid, err_error = message err,
           attempts = (case failedPayments s oid of Some f \<Rightarrow> attempts f + 1 | None \<Rightarrow> 1),
           lastAttempt = now e\<rparr>)\<rparr>"

text \<open>
  The conditional expression of lines 159-161: with a transaction hash (an empty text
  counts as none) the transaction is verified, without one the balance of the address is
  checked.
\<close>

definition isValid :: "env \<Rightarrow> string option \<Rightarrow> PaymentDetails \<Rightarrow> PaymentService \<Rightarrow> bool \<times> PaymentService" where
  "isValid e txHash p s =
     (case txHash of
        Some h \<Rightarrow>
          if h \<noteq> [] then (verifyEthereumTransaction e h p, s)
          else (let (b, st') = checkPaymentAddresses e p (storageService s) in (b, s\<lparr>storageService := st'\<rparr>))
      | None \<Rightarrow>
          (let (b, st') = checkPaymentAddresses e p (storageService s) in (b, s\<lparr>storageService := st'\<rparr>)))"

text \<open>The number of attempts that the failure record of an order holds, 0 without a
  record (lines 150-151).\<close>

definition recorded_attempts :: "string \<Rightarrow> PaymentService \<Rightarrow> nat" where
  "recorded_attempts oid s = (case failedPayments s oid of Some f \<Rightarrow> attempts f | None \<Rightarrow> 0)"

text \<open>
  \<^verbatim>\<open>retryVerification\<close> (lines 149-175). Nothing inside its \<^verbatim>\<open>try\<close> raises (the two
  verifications catch their errors, the handlers have none), so its \<^verbatim>\<open>catch\<close> is
  never entered.
\<close>

definition retryVerification ::
  "env \<Rightarrow> PaymentDetails \<Rightarrow> string option \<Rightarrow> PaymentService \<Rightarrow> bool \<times> PaymentService" where
  "retryVerification e p txHash s =
     (let n = recorded_attempts (orderId p) s
      in if n \<ge> maxAttempts retryConfig then (False, handleMaxRetriesExceeded p s)
         else
           (let (valid, s1) = isValid e txHash p s
            in if valid then (True, handleSuccessfulPayment p s1)
               else (False, handleFailedVerification e p s1)))"

text \<open>The \<^verbatim>\<open>try\<close> block of \<^verbatim>\<open>verifyPayment\<close> (lines 96-106).\<close>

definition verifyPayment_try ::
  "env \<Rightarrow> string \<Rightarrow> string option \<Rightarrow> PaymentService \<Rightarrow> error + bool \<times> PaymentService" where
  "verifyPayment_try e oid txHash s =
     (case payments s oid of
        None \<Rightarrow> Inl (Error (''Payment not found: '' @ oid))
      | Some p \<Rightarrow>
          if hasPaymentExpired e p then Inr (False, handleExpiredPayment p s)
          else Inr (retryVerification e p txHash s))"

text \<open>\<^verbatim>\<open>verifyPayment\<close> (lines 94-112): the \<^verbatim>\<open>catch\<close> records the error and returns
  \<^verbatim>\<open>false\<close>.\<close>

definition verifyPayment ::
  "env \<Rightarrow> string \<Rightarrow> string option \<Rightarrow> PaymentService \<Rightarrow> error + bool \<times> PaymentService" where
  "verifyPayment e oid txHash s =
     (case verifyPayment_try e oid txHash s of
        Inl err \<Rightarrow> Inr (False, handlePaymentError e oid err s)
      | Inr r \<Rightarrow> Inr r)"

text \<open>\<^verbatim>\<open>getPaymentStatus\<close> (lines 245-247); \<open>None\<close> is the text \<^verbatim>\<open>'not_found'\<close>.\<close>

definition getPaymentStatus :: "string \<Rightarrow> PaymentService \<Rightarrow> status option" where
  "getPaymentStatus oid s = map_option status (payments s oid)"

text \<open>\<^verbatim>\<open>retryFailedPayment\<close> (lines 249-259).\<close>

definition retryFailedPayment :: "env \<Rightarrow> string \<Rightarrow> PaymentService \<Rightarrow> error + bool \<times> PaymentService" where
  "retryFailedPayment e oid s =
     (case failedPayments s oid of
        None \<Rightarrow> Inr (False, s)
      | Some failedPayment \<Rightarrow>
          verifyPayment e oid None
            (s\<lparr>failedPayments := (failedPayments s)(oid \<mapsto> failedPayment\<lparr>attempts := 0\<rparr>)\<rparr>))"

text \<open>
  The public operations that act on an existing payment, and a run of them. A rejected
  call would leave the state as it was.
\<close>

datatype ledger_op = Verify env string "string option" | Retry env string

definition state_after :: "error + bool \<times> PaymentService \<Rightarrow> PaymentService \<Rightarrow> PaymentService" where
  "state_after r s = (case r of Inl err \<Rightarrow> s | Inr (b, s') \<Rightarrow> s')"

fun apply_op :: "ledger_op \<Rightarrow> PaymentService \<Rightarrow> PaymentService" where
  "apply_op (Verify e oid txHash) s = state_after (verifyPayment e oid txHash s) s"
| "apply_op (Retry e oid) s = state_after (retryFailedPayment e oid s) s"

fun run_ops :: "ledger_op list \<Rightarrow> PaymentService \<Rightarrow> PaymentService" where
  "run_ops [] s = s"
| "run_ops (x # xs) s = run_ops xs (apply_op x s)"

section \<open>RecoverySystem\<close>













section \<open>Sample states\<close>

text \<open>Concrete inputs on which the theorems below are instantiated.\<close>

text \<open>A limiter with a ceiling of two requests per hour and no window yet.\<close>

definition limiter0 :: RateLimiter where
  "limiter0 = \<lparr>limits = Map.empty, maxRequestsPerHour = 2\<rparr>"

text \<open>
  A payment of 10 for the order \<open>oid\<close>, created at time \<open>t\<close>, and the stored request of
  the tweet \<open>tid\<close> that holds a payment, the payment object being named after the tweet
  (\<open>t1\<close> unless stored otherwise).
\<close>

definition wallets0 :: walletAddresses where
  "wallets0 = \<lparr>btc = ''bc1q'', eth = ''0xAbC1'', sol = ''So11'', usdt = ''TX11''\<rparr>"

definition payment0 :: "string \<Rightarrow> status \<Rightarrow> int \<Rightarrow> PaymentDetails" where
  "payment0 oid st t =
     \<lparr>orderId = oid, amount = 10, userId = ''user1234'', tweetId = ''tweet1'',
      walletAddresses = wallets0, status = st, timestamp = t, object_id = ''t1''\<rparr>"

definition request0 :: "string \<Rightarrow> PaymentDetails \<Rightarrow> StoredRequest" where
  "request0 tid p =
     \<lparr>req_tweetId = tid, req_userId = userId p, prompt = ''lofi beats'',
      payment = p\<lparr>object_id := tid\<rparr>, req_timestamp = timestamp p\<rparr>"

text \<open>A store of three requests, the last two with the same order id.\<close>

definition store3 :: StorageService where
  "store3 = \<lparr>requests = [request0 ''t1'' (payment0 ''PAY-1'' pending 0),
                          request0 ''t2'' (payment0 ''PAY-2'' pending 0),
                          request0 ''t3'' (payment0 ''PAY-2'' pending 0)],
             kv = Map.empty\<rparr>"

text \<open>An idle, empty queue; the queue of the three tasks A (always failing), B and C; and the state its processing ends in.\<close>

definition queue0 :: QueueManager where
  "queue0 = \<lparr>queue = [], processing = False, executed = []\<rparr>"

definition queue_ABC :: QueueManager where
  "queue_ABC =
     addTask ''C'' (\<lambda>n. Inr ())
       (addTask ''B'' (\<lambda>n. Inr ())
          (addTask ''A'' (\<lambda>n. Inl (Error ''boom'')) queue0))"

definition queue_ABC_done :: QueueManager where
  "queue_ABC_done =
     \<lparr>queue = [], processing = False, executed = [''A'', ''A'', ''A'', ''A'', ''B'', ''C'']\<rparr>"

text \<open>
  An environment at time \<open>t\<close> in which the chain knows no transaction, every address has
  the balance of \<open>bal\<close> wei, and the storage works.
\<close>

definition env_at :: "int \<Rightarrow> int \<Rightarrow> env" where
  "env_at t bal =
     \<lparr>now = t, getTransaction = (\<lambda>h. Inr None), getBalance = (\<lambda>a. Inr bal),
      getValueFails = False, setValueFails = False\<rparr>"

text \<open>
  A ledger with the one payment PAY-1, created at time 0, in the given status, with a
  failure record of \<open>k\<close> attempts for \<open>Some k\<close>, the request store holding the same
  payment object; and the empty ledger.
\<close>

definition ledger1 :: "status \<Rightarrow> nat option \<Rightarrow> PaymentService" where
  "ledger1 st n =
     \<lparr>payments = [''PAY-1'' \<mapsto> payment0 ''PAY-1'' st 0],
      failedPayments =
        (case n of
           None \<Rightarrow> Map.empty
         | Some k \<Rightarrow> [''PAY-1'' \<mapsto> \<lparr>err_orderId = ''PAY-1'', err_error = ''Payment verification failed'',
                                     attempts = k, lastAttempt = 0\<rparr>]),
      storageService = \<lparr>requests = [request0 ''t1'' (payment0 ''PAY-1'' st 0)], kv = Map.empty\<rparr>,
      created = 1\<rparr>"

definition ledger_empty :: PaymentService where
  "ledger_empty = \<lparr>payments = Map.empty, failedPayments = Map.empty,
                    storageService = \<lparr>requests = [], kv = Map.empty\<rparr>, created = 0\<rparr>"

text \<open>
  An empty storage; an environment whose chain returns, for every hash, a transaction to
  the address of \<open>wallets0\<close> in upper case with the value of \<open>v\<close> wei; and one in which
  every address has the balance of \<open>bal\<close> wei and both calls of the storage raise, as
  they do on the storage class of src/services/storage.ts, which has neither method.
\<close>

definition storage_empty :: StorageService where
  "storage_empty = \<lparr>requests = [], kv = Map.empty\<rparr>"

definition env_tx :: "int \<Rightarrow> env" where
  "env_tx v =
     \<lparr>now = 1000, getTransaction = (\<lambda>h. Inr (Some (Some ''0xABC1'', v))), getBalance = (\<lambda>a. Inr 0),
      getValueFails = False, setValueFails = False\<rparr>"

definition env_no_storage :: "int \<Rightarrow> env" where
  "env_no_storage bal =
     \<lparr>now = 1000, getTransaction = (\<lambda>h. Inr None), getBalance = (\<lambda>a. Inr bal),
      getValueFails = True, setValueFails = True\<rparr>"








section \<open>RateLimiter: ceiling and window reset\<close>

lemma checkLimit_other_identity:
  "uid' \<noteq> uid \<Longrightarrow> limits (snd (checkLimit t uid' s)) uid = limits s uid \<and>
     maxRequestsPerHour (snd (checkLimit t uid' s)) = maxRequestsPerHour s"
  by (simp add: checkLimit_def Let_def split: option.splits)

lemma checkLimit_calls_in_window:
  "limits s uid = Some l \<Longrightarrow> \<forall>t \<in> set ts. t \<le> resetTime l \<Longrightarrow>
   fst (checkLimit_calls uid ts s) = map (\<lambda>k. count l + int k < maxRequestsPerHour s) [0..<length ts]"
proof (induction ts arbitrary: s l)
  case Nil
  then show ?case by simp
next
  case (Cons t ts)
  have shift: "[0..<Suc (length ts)] = 0 # map Suc [0..<length ts]"
    by (simp add: upt_conv_Cons map_Suc_upt del: upt_Suc)
  show ?case
  proof (cases "count l \<ge> maxRequestsPerHour s")
    case True
    with Cons.prems have step: "checkLimit t uid s = (False, s)"
      by (simp add: checkLimit_def)
    from Cons.IH [of s l] Cons.prems
    have "fst (checkLimit_calls uid ts s) = map (\<lambda>k. count l + int k < maxRequestsPerHour s) [0..<length ts]"
      by simp
    with True step show ?thesis
      by (simp add: shift split_beta comp_def del: upt_Suc)
  next
    case False
    let ?l = "l\<lparr>count := count l + 1\<rparr>"
    let ?s = "s\<lparr>limits := (limits s)(uid \<mapsto> ?l)\<rparr>"
    from False Cons.prems have step: "checkLimit t uid s = (True, ?s)"
      by (simp add: checkLimit_def)
    from Cons.IH [of ?s ?l] Cons.prems
    have "fst (checkLimit_calls uid ts ?s) = map (\<lambda>k. count l + 1 + int k < maxRequestsPerHour s) [0..<length ts]"
      by simp
    with False step show ?thesis
      by (simp add: shift split_beta comp_def add.assoc del: upt_Suc)
  qed
qed
text \<open>
  Claim C4. Within one rate window (every call at a time not past the window's
  \<^verbatim>\<open>resetTime\<close>), for a ceiling of at least one request per hour, the \<open>k\<close>-th
  \<^verbatim>\<open>checkLimit\<close> call of an identity is allowed exactly when \<open>k\<close> is at most the ceiling:
  the ceiling-th call still returns true and the next one returns false. And every call
  for an identity with no window, or whose window's \<^verbatim>\<open>resetTime\<close> has passed, creates a
  fresh window with count 1 and \<^verbatim>\<open>resetTime\<close> one hour after now, and returns true.
\<close>

theorem checkLimit_ceiling_and_reset:
  "((limits s uid = None \<or> (\<exists>l. limits s uid = Some l \<and> t0 > resetTime l)) \<longrightarrow>
      checkLimit t0 uid s =
        (True, s\<lparr>limits := (limits s)(uid \<mapsto> \<lparr>count = 1, resetTime = t0 + 60 * 60 * 1000\<rparr>)\<rparr>)) \<and>
   ((limits s uid = None \<or> (\<exists>l. limits s uid = Some l \<and> t0 > resetTime l)) \<and>
    (\<forall>t \<in> set ts. t \<le> t0 + 60 * 60 * 1000) \<and> 1 \<le> maxRequestsPerHour s \<longrightarrow>
      (\<forall>k < length (t0 # ts).
         fst (checkLimit_calls uid (t0 # ts) s) ! k = (int (k + 1) \<le> maxRequestsPerHour s)))"
proof (intro conjI impI allI)
  assume "limits s uid = None \<or> (\<exists>l. limits s uid = Some l \<and> t0 > resetTime l)"
  then show "checkLimit t0 uid s =
        (True, s\<lparr>limits := (limits s)(uid \<mapsto> \<lparr>count = 1, resetTime = t0 + 60 * 60 * 1000\<rparr>)\<rparr>)"
    by (auto simp: checkLimit_def)
next
  fix k
  assume a: "(limits s uid = None \<or> (\<exists>l. limits s uid = Some l \<and> t0 > resetTime l)) \<and>
    (\<forall>t \<in> set ts. t \<le> t0 + 60 * 60 * 1000) \<and> 1 \<le> maxRequestsPerHour s"
    and k: "k < length (t0 # ts)"
  let ?l = "\<lparr>count = 1, resetTime = t0 + 60 * 60 * 1000\<rparr>"
  let ?s = "s\<lparr>limits := (limits s)(uid \<mapsto> ?l)\<rparr>"
  from a have first: "checkLimit t0 uid s = (True, ?s)"
    by (auto simp: checkLimit_def)
  from a have "fst (checkLimit_calls uid ts ?s) =
      map (\<lambda>k. count ?l + int k < maxRequestsPerHour ?s) [0..<length ts]"
    by (intro checkLimit_calls_in_window) auto
  then have rest: "fst (checkLimit_calls uid ts ?s) =
      map (\<lambda>k. 1 + int k < maxRequestsPerHour s) [0..<length ts]"
    by simp
  show "fst (checkLimit_calls uid (t0 # ts) s) ! k = (int (k + 1) \<le> maxRequestsPerHour s)"
  proof (cases k)
    case 0
    with a first show ?thesis by (simp add: split_beta)
  next
    case (Suc j)
    with k have "j < length ts" by simp
    with Suc first rest show ?thesis by (simp add: split_beta) arith
  qed
qed

theorem checkLimit_ceiling_and_reset_witness:
  "fst (checkLimit_calls ''alice'' [1000, 2000, 3601000] limiter0) ! 1 = True \<and>
   fst (checkLimit_calls ''alice'' [1000, 2000, 3601000] limiter0) ! 2 = False \<and>
   checkLimit 1000 ''alice'' limiter0 =
     (True, limiter0\<lparr>limits := (limits limiter0)(''alice'' \<mapsto> \<lparr>count = 1, resetTime = 3601000\<rparr>)\<rparr>)"
proof -
  let ?r = "fst (checkLimit_calls ''alice'' [1000, 2000, 3601000] limiter0)"
  have h: "(limits limiter0 ''alice'' = None \<or> (\<exists>l. limits limiter0 ''alice'' = Some l \<and> 1000 > resetTime l)) \<and>
    (\<forall>t \<in> set [2000, 3601000 :: int]. t \<le> 1000 + 60 * 60 * 1000) \<and> 1 \<le> maxRequestsPerHour limiter0"
    by (simp add: limiter0_def)
  note inst = checkLimit_ceiling_and_reset [of limiter0 "''alice''" 1000 "[2000, 3601000]"]
  from inst h have all: "\<forall>k < length [1000, 2000, 3601000 :: int].
      ?r ! k = (int (k + 1) \<le> maxRequestsPerHour limiter0)"
    by blast
  from all have "?r ! 1 = (int (1 + 1) \<le> maxRequestsPerHour limiter0)"
    by (rule allE [where x = 1]) simp
  then have a: "?r ! 1 = True" by (simp add: limiter0_def)
  from all have "?r ! 2 = (int (2 + 1) \<le> maxRequestsPerHour limiter0)"
    by (rule allE [where x = 2]) simp
  then have b: "?r ! 2 = False" by (simp add: limiter0_def)
  from inst h have c: "checkLimit 1000 ''alice'' limiter0 =
     (True, limiter0\<lparr>limits := (limits limiter0)(''alice'' \<mapsto> \<lparr>count = 1, resetTime = 3601000\<rparr>)\<rparr>)"
    by simp
  from a b c show ?thesis by blast
qed

section \<open>StorageService: frame of updatePaymentStatus\<close>

lemma update_first_length: "length (update_first oid st rs) = length rs"
  by (induction rs) auto

lemma update_first_no_match:
  "\<forall>r \<in> set rs. orderId (payment r) \<noteq> oid \<Longrightarrow> update_first oid st rs = rs"
  by (induction rs) auto

lemma update_first_at:
  "i < length rs \<Longrightarrow> orderId (payment (rs ! i)) = oid \<Longrightarrow>
   \<forall>j < i. orderId (payment (rs ! j)) \<noteq> oid \<Longrightarrow>
   update_first oid st rs = rs[i := (rs ! i)\<lparr>payment := (payment (rs ! i))\<lparr>status := st\<rparr>\<rparr>]"
proof (induction rs arbitrary: i)
  case Nil
  then show ?case by simp
next
  case (Cons r rs)
  show ?case
  proof (cases i)
    case 0
    with Cons.prems show ?thesis by simp
  next
    case (Suc k)
    from Cons.prems Suc have head: "orderId (payment r) \<noteq> oid" by auto
    from Cons.prems Suc have "k < length rs" "orderId (payment (rs ! k)) = oid"
      "\<forall>j < k. orderId (payment (rs ! j)) \<noteq> oid" by auto
    from Cons.IH [OF this] head Suc show ?thesis by simp
  qed
qed


text \<open>
  Claim C10. \<^verbatim>\<open>updatePaymentStatus(orderId, status)\<close> completes without error and changes
  at most one stored request: when no stored request has the order id the store is
  unchanged, and otherwise the first request in insertion order whose payment has the
  order id gets the status, its other fields and every other request staying as they were.
\<close>

theorem updatePaymentStatus_frame:
  "\<exists>s'. updatePaymentStatus oid st s = Inr ((), s') \<and> kv s' = kv s \<and>
      length (requests s') = length (requests s) \<and>
      ((\<forall>r \<in> set (requests s). orderId (payment r) \<noteq> oid) \<longrightarrow> s' = s) \<and>
      (\<forall>i < length (requests s).
         orderId (payment (requests s ! i)) = oid \<and>
         (\<forall>j < i. orderId (payment (requests s ! j)) \<noteq> oid) \<longrightarrow>
         requests s' =
           (requests s)[i := (requests s ! i)\<lparr>payment := (payment (requests s ! i))\<lparr>status := st\<rparr>\<rparr>])"
proof -
  let ?s = "s\<lparr>requests := update_first oid st (requests s)\<rparr>"
  have "updatePaymentStatus oid st s = Inr ((), ?s)"
    by (simp add: updatePaymentStatus_def)
  moreover have "kv ?s = kv s" by simp
  moreover have "length (requests ?s) = length (requests s)"
    by (simp add: update_first_length)
  moreover have "(\<forall>r \<in> set (requests s). orderId (payment r) \<noteq> oid) \<longrightarrow> ?s = s"
    by (simp add: update_first_no_match)
  moreover have "\<forall>i < length (requests s).
         orderId (payment (requests s ! i)) = oid \<and>
         (\<forall>j < i. orderId (payment (requests s ! j)) \<noteq> oid) \<longrightarrow>
         requests ?s =
           (requests s)[i := (requests s ! i)\<lparr>payment := (payment (requests s ! i))\<lparr>status := st\<rparr>\<rparr>]"
    using update_first_at [of _ "requests s" oid st] by simp
  ultimately show ?thesis by blast
qed

theorem updatePaymentStatus_frame_witness:
  "(\<exists>s'. updatePaymentStatus ''PAY-2'' completed store3 = Inr ((), s') \<and>
      requests s' = [request0 ''t1'' (payment0 ''PAY-1'' pending 0),
                     request0 ''t2'' (payment0 ''PAY-2'' completed 0),
                     request0 ''t3'' (payment0 ''PAY-2'' pending 0)]) \<and>
   updatePaymentStatus ''PAY-9'' failed store3 = Inr ((), store3)"
proof -
  from updatePaymentStatus_frame [of "''PAY-2''" completed store3]
  obtain s' where run: "updatePaymentStatus ''PAY-2'' completed store3 = Inr ((), s')"
    and at: "\<forall>i < length (requests store3).
         orderId (payment (requests store3 ! i)) = ''PAY-2'' \<and>
         (\<forall>j < i. orderId (payment (requests store3 ! j)) \<noteq> ''PAY-2'') \<longrightarrow>
         requests s' =
           (requests store3)[i := (requests store3 ! i)\<lparr>payment := (payment (requests store3 ! i))\<lparr>status := completed\<rparr>\<rparr>]"
    by blast
  have "1 < length (requests store3) \<and> orderId (payment (requests store3 ! 1)) = ''PAY-2'' \<and>
         (\<forall>j < 1. orderId (payment (requests store3 ! j)) \<noteq> ''PAY-2'')"
    by (simp add: store3_def request0_def payment0_def)
  with at have "requests s' =
      (requests store3)[1 := (requests store3 ! 1)\<lparr>payment := (payment (requests store3 ! 1))\<lparr>status := completed\<rparr>\<rparr>]"
    by blast
  then have first: "requests s' = [request0 ''t1'' (payment0 ''PAY-1'' pending 0),
                     request0 ''t2'' (payment0 ''PAY-2'' completed 0),
                     request0 ''t3'' (payment0 ''PAY-2'' pending 0)]"
    by (simp add: store3_def request0_def payment0_def)
  from updatePaymentStatus_frame [of "''PAY-9''" failed store3]
  obtain s2 where run2: "updatePaymentStatus ''PAY-9'' failed store3 = Inr ((), s2)"
    and none: "(\<forall>r \<in> set (requests store3). orderId (payment r) \<noteq> ''PAY-9'') \<longrightarrow> s2 = store3"
    by blast
  have "\<forall>r \<in> set (requests store3). orderId (payment r) \<noteq> ''PAY-9''"
    by (simp add: store3_def request0_def payment0_def)
  with none run2 have second: "updatePaymentStatus ''PAY-9'' failed store3 = Inr ((), store3)"
    by simp
  from run first second show ?thesis by blast
qed

section \<open>QueueManager: a failing head task\<close>

lemma while_queue_empty: "queue q = [] \<Longrightarrow> while_queue q = q"
  by (subst while_queue.simps) simp

lemma while_queue_success:
  "queue q = t # rest \<Longrightarrow> task t (retries t) = Inr u \<Longrightarrow>
   while_queue q = while_queue (q\<lparr>queue := rest, executed := executed q @ [task_id t]\<rparr>)"
  by (subst while_queue.simps) (simp add: executeTask_def)

lemma while_queue_retry:
  "queue q = t # rest \<Longrightarrow> task t (retries t) = Inl err \<Longrightarrow> retries t < maxRetries \<Longrightarrow>
   while_queue q =
     while_queue (q\<lparr>queue := t\<lparr>retries := retries t + 1\<rparr> # rest, executed := executed q @ [task_id t]\<rparr>)"
  by (subst while_queue.simps) (simp add: executeTask_def)

lemma while_queue_drop:
  "queue q = t # rest \<Longrightarrow> task t (retries t) = Inl err \<Longrightarrow> \<not> retries t < maxRetries \<Longrightarrow>
   while_queue q = while_queue (q\<lparr>queue := rest, executed := executed q @ [task_id t]\<rparr>)"
  by (subst while_queue.simps) (simp add: executeTask_def)

lemma while_queue_always_failing:
  "\<forall>n. isl (task t n) \<Longrightarrow> queue q = t # rest \<Longrightarrow> retries t \<le> maxRetries \<Longrightarrow>
   while_queue q =
     while_queue (q\<lparr>queue := rest,
                     executed := executed q @ replicate (Suc maxRetries - retries t) (task_id t)\<rparr>)"
proof (induction "maxRetries - retries t" arbitrary: q t)
  case 0
  then have full: "\<not> retries t < maxRetries" by simp
  from 0 obtain err where "task t (retries t) = Inl err"
    by (metis isl_def)
  from while_queue_drop [OF "0.prems"(2) this full] 0 show ?case by simp
next
  case (Suc k)
  then have less: "retries t < maxRetries" by simp
  from Suc obtain err where "task t (retries t) = Inl err"
    by (metis isl_def)
  from while_queue_retry [OF Suc.prems(2) this less]
  have step: "while_queue q =
     while_queue (q\<lparr>queue := t\<lparr>retries := retries t + 1\<rparr> # rest, executed := executed q @ [task_id t]\<rparr>)" .
  let ?t = "t\<lparr>retries := retries t + 1\<rparr>"
  let ?q = "q\<lparr>queue := ?t # rest, executed := executed q @ [task_id t]\<rparr>"
  have "while_queue ?q =
     while_queue (?q\<lparr>queue := rest,
                     executed := executed ?q @ replicate (Suc maxRetries - retries ?t) (task_id ?t)\<rparr>)"
    using Suc.hyps(2) Suc.prems(1) less by (intro Suc.hyps(1)) auto
  moreover have "Suc maxRetries - retries t = Suc (Suc maxRetries - retries ?t)"
    using less by simp
  ultimately show ?case using step by (simp add: replicate_app_Cons_same)
qed

text \<open>
  Claim C3, as amended. With \<^verbatim>\<open>maxRetries = 3\<close> and three tasks A, B, C enqueued in that
  order on an idle queue, where every invocation of A's operation fails and the first
  invocations of B's and of C's succeed: A's operation is invoked exactly four times (the
  first attempt and three retries) and A is then dropped without an error reaching the
  caller, after which B and C are each invoked exactly once, in that order, and the
  queue is left empty and idle.
\<close>

theorem processQueue_failing_head:
  assumes idle: "queue q = []" "\<not> processing q"
    and a: "\<forall>n. isl (fa n)" and b: "fb 0 = Inr ()" and c: "fc 0 = Inr ()"
  shows "processQueue (addTask idc fc (addTask idb fb (addTask ida fa q))) =
           Inr ((), q\<lparr>executed := executed q @ [ida, ida, ida, ida, idb, idc]\<rparr>)"
proof -
  let ?A = "\<lparr>task_id = ida, task = fa, retries = 0\<rparr>"
  let ?B = "\<lparr>task_id = idb, task = fb, retries = 0\<rparr>"
  let ?C = "\<lparr>task_id = idc, task = fc, retries = 0\<rparr>"
  let ?q1 = "q\<lparr>queue := [?A, ?B, ?C], processing := True\<rparr>"
  let ?q2 = "?q1\<lparr>queue := [?B, ?C], executed := executed ?q1 @ replicate (Suc maxRetries - retries ?A) (task_id ?A)\<rparr>"
  let ?q3 = "?q2\<lparr>queue := [?C], executed := executed ?q2 @ [task_id ?B]\<rparr>"
  let ?q4 = "?q3\<lparr>queue := [], executed := executed ?q3 @ [task_id ?C]\<rparr>"
  have "while_queue ?q1 = while_queue ?q2"
    using a by (intro while_queue_always_failing) simp_all
  also have "\<dots> = while_queue ?q3"
    using b by (intro while_queue_success [where u = "()"]) simp_all
  also have "\<dots> = while_queue ?q4"
    using c by (intro while_queue_success [where u = "()"]) simp_all
  also have "\<dots> = ?q4"
    by (intro while_queue_empty) simp
  finally have "while_queue ?q1 = ?q4" .
  with idle show ?thesis
    by (simp add: processQueue_def addTask_def maxRetries_def numeral_eq_Suc)
qed

theorem processQueue_failing_head_witness:
  "processQueue queue_ABC = Inr ((), queue_ABC_done)"
proof -
  have "processQueue (addTask ''C'' (\<lambda>n. Inr ()) (addTask ''B'' (\<lambda>n. Inr ())
          (addTask ''A'' (\<lambda>n. Inl (Error ''boom'')) queue0))) =
        Inr ((), queue0\<lparr>executed := executed queue0 @ [''A'', ''A'', ''A'', ''A'', ''B'', ''C'']\<rparr>)"
    by (rule processQueue_failing_head) (simp_all add: queue0_def)
  then show ?thesis by (simp add: queue_ABC_def queue_ABC_done_def queue0_def)
qed

text \<open>
  The claim as stated (A attempted exactly three times) fails on the queue of the three
  tasks: the run invokes A four times.
\<close>

theorem processQueue_three_attempts_counterexample:
  "processQueue queue_ABC = Inr ((), queue_ABC_done) \<and>
   count_list (executed queue_ABC_done) ''A'' \<noteq> 3"
  by (simp add: queue_ABC_def queue_ABC_done_def queue0_def addTask_def processQueue_def
      while_queue.simps executeTask_def maxRetries_def)

section \<open>PaymentService: the verification state machine\<close>

lemmas verify_defs = verifyPayment_def verifyPayment_try_def retryVerification_def

lemma ether_of_wei_0: "ether_of_wei 0 = Fin 0"
  by (simp add: ether_of_wei_def round64_def)

lemma dgt_zero_zero: "dgt (Fin 0) (Fin 0) = False"
  by (simp add: dgt_def dle_def fin_val_def)

lemma dgt_one_wei: "dgt (ether_of_wei 1) (Fin 0) = True"
  by code_simp

lemmas balance_facts = isValid_def checkPaymentAddresses_def getValue_def setValue_def
  parseFloat_or_0_def number_toString_def ether_of_wei_0 dgt_zero_zero dgt_one_wei

lemma assign_in_ledger_status:
  "map_option status (assign_in_ledger i st m k) = map_option status (m k) \<or>
   map_option status (assign_in_ledger i st m k) = Some st"
  by (simp add: assign_in_ledger_def split: option.splits)

lemma set_status_frame:
  "failedPayments (set_status p st s) = failedPayments s"
  "kv (storageService (set_status p st s)) = kv (storageService s)"
  by (simp_all add: set_status_def)

lemma storage_update_frame:
  "failedPayments (storage_update oid st s) = failedPayments s"
  "kv (storageService (storage_update oid st s)) = kv (storageService s)"
  by (simp_all add: storage_update_def updatePaymentStatus_def split: option.splits)

lemma set_status_at:
  "payments s oid = Some p \<Longrightarrow> getPaymentStatus oid (set_status p st s) = Some st"
  by (simp add: set_status_def getPaymentStatus_def assign_in_ledger_def)

lemma set_status_other:
  "getPaymentStatus k (set_status p st s) = getPaymentStatus k s \<or>
   getPaymentStatus k (set_status p st s) = Some st"
  using assign_in_ledger_status [of "object_id p" st "payments s" k]
  by (simp add: set_status_def getPaymentStatus_def)

lemma storage_update_other:
  "getPaymentStatus k (storage_update oid st s) = getPaymentStatus k s \<or>
   getPaymentStatus k (storage_update oid st s) = Some st"
  using assign_in_ledger_status [of _ st "payments s" k]
  by (simp add: storage_update_def updatePaymentStatus_def getPaymentStatus_def split: option.splits)

lemma mark_at:
  "payments s oid = Some p \<Longrightarrow>
   getPaymentStatus oid (storage_update oid' st (set_status p st s)) = Some st"
  using storage_update_other [of oid oid' st "set_status p st s"] set_status_at [of s oid p st]
  by auto

lemma mark_other:
  "getPaymentStatus k (storage_update oid' st (set_status p st s)) = getPaymentStatus k s \<or>
   getPaymentStatus k (storage_update oid' st (set_status p st s)) = Some st"
  using storage_update_other [of k oid' st "set_status p st s"] set_status_other [of k p st s]
  by auto

lemma mark_frame:
  "failedPayments (storage_update oid' st (set_status p st s)) = failedPayments s"
  "kv (storageService (storage_update oid' st (set_status p st s))) = kv (storageService s)"
  by (simp_all add: storage_update_frame set_status_frame)

lemma handleSuccessfulPayment_other:
  "getPaymentStatus k (handleSuccessfulPayment p s) = getPaymentStatus k s \<or>
   getPaymentStatus k (handleSuccessfulPayment p s) = Some completed"
proof -
  let ?s1 = "set_status p completed s"
  let ?s2 = "?s1\<lparr>failedPayments := (failedPayments ?s1)(orderId p := None)\<rparr>"
  have "getPaymentStatus k ?s2 = getPaymentStatus k ?s1"
    by (simp add: getPaymentStatus_def)
  with storage_update_other [of k "orderId p" completed ?s2] set_status_other [of k p completed s]
  show ?thesis by (auto simp: handleSuccessfulPayment_def Let_def)
qed

lemma handleSuccessfulPayment_attempts:
  "failedPayments (handleSuccessfulPayment p s) = (failedPayments s)(orderId p := None)"
  by (simp add: handleSuccessfulPayment_def Let_def storage_update_frame set_status_frame)

lemma handleFailedVerification_frame:
  "payments (handleFailedVerification e p s) = payments s"
  "storageService (handleFailedVerification e p s) = storageService s"
  by (simp_all add: handleFailedVerification_def)

lemma verifyPayment_resolves: "\<exists>b s'. verifyPayment e oid txHash s = Inr (b, s')"
  by (cases "verifyPayment_try e oid txHash s") (auto simp: verifyPayment_def)

lemma isValid_frame:
  "payments (snd (isValid e txHash p s)) = payments s \<and>
   failedPayments (snd (isValid e txHash p s)) = failedPayments s"
  by (simp add: isValid_def split_beta split: option.splits)

lemma verifyPayment_step:
  assumes "verifyPayment e oid txHash s = Inr (b, s')"
  shows "getPaymentStatus k s' = getPaymentStatus k s \<or> getPaymentStatus k s' = Some completed \<or>
         getPaymentStatus k s' = Some failed"
proof (cases "payments s oid")
  case None
  with assms show ?thesis
    by (auto simp: verify_defs handlePaymentError_def getPaymentStatus_def)
next
  case (Some p)
  show ?thesis
  proof (cases "hasPaymentExpired e p")
    case True
    with Some assms have "s' = storage_update (orderId p) failed (set_status p failed s)"
      by (auto simp: verify_defs handleExpiredPayment_def)
    with mark_other [of k "orderId p" failed p s] show ?thesis by auto
  next
    case False
    obtain v s1 where iv: "isValid e txHash p s = (v, s1)" by (cases "isValid e txHash p s")
    with isValid_frame [of e txHash p s] have fr: "getPaymentStatus k s1 = getPaymentStatus k s"
      by (simp add: getPaymentStatus_def)
    from Some False assms iv have
      "s' = storage_update (orderId p) failed (set_status p failed s) \<or>
       s' = handleSuccessfulPayment p s1 \<or> s' = handleFailedVerification e p s1"
      by (auto simp: verify_defs handleMaxRetriesExceeded_def Let_def split: if_splits)
    with mark_other [of k "orderId p" failed p s] handleSuccessfulPayment_other [of k p s1] fr
    show ?thesis
      by (auto simp: getPaymentStatus_def handleFailedVerification_frame)
  qed
qed

lemma verifyPayment_no_return_to_pending:
  assumes "verifyPayment e oid txHash s = Inr (b, s')" and "getPaymentStatus k s \<noteq> Some pending"
  shows "getPaymentStatus k s' \<noteq> Some pending"
  using verifyPayment_step [OF assms(1), of k] assms(2) by auto

lemma apply_op_no_return_to_pending:
  assumes "getPaymentStatus k s \<noteq> Some pending"
  shows "getPaymentStatus k (apply_op x s) \<noteq> Some pending"
proof (cases x)
  case (Verify e oid txHash)
  from verifyPayment_resolves [of e oid txHash s] obtain b s'
    where r: "verifyPayment e oid txHash s = Inr (b, s')" by blast
  from verifyPayment_no_return_to_pending [OF r assms] r Verify show ?thesis
    by (simp add: state_after_def)
next
  case (Retry e oid)
  show ?thesis
  proof (cases "failedPayments s oid")
    case None
    with Retry assms show ?thesis by (simp add: retryFailedPayment_def state_after_def)
  next
    case (Some f)
    let ?s = "s\<lparr>failedPayments := (failedPayments s)(oid \<mapsto> f\<lparr>attempts := 0\<rparr>)\<rparr>"
    from verifyPayment_resolves [of e oid None ?s] obtain b s'
      where r: "verifyPayment e oid None ?s = Inr (b, s')" by blast
    from assms have "getPaymentStatus k ?s \<noteq> Some pending" by (simp add: getPaymentStatus_def)
    from verifyPayment_no_return_to_pending [OF r this] r Some Retry show ?thesis
      by (simp add: retryFailedPayment_def state_after_def)
  qed
qed

lemma run_ops_no_return_to_pending:
  "getPaymentStatus k s \<noteq> Some pending \<Longrightarrow> getPaymentStatus k (run_ops xs s) \<noteq> Some pending"
  by (induction xs arbitrary: s) (auto simp: apply_op_no_return_to_pending)

lemma attempts_after_reset_le_1:
  assumes "verifyPayment e oid txHash s = Inr (b, s')" and "recorded_attempts oid s = 0"
  shows "recorded_attempts oid s' \<le> 1"
proof (cases "payments s oid")
  case None
  with assms show ?thesis
    by (auto simp: verify_defs handlePaymentError_def recorded_attempts_def split: option.splits)
next
  case (Some p)
  show ?thesis
  proof (cases "hasPaymentExpired e p")
    case True
    with Some assms show ?thesis
      by (auto simp: verify_defs handleExpiredPayment_def mark_frame recorded_attempts_def)
  next
    case False
    obtain v s1 where iv: "isValid e txHash p s = (v, s1)" by (cases "isValid e txHash p s")
    with isValid_frame [of e txHash p s] have fr: "failedPayments s1 = failedPayments s" by simp
    from Some False assms iv fr show ?thesis
      by (auto simp: verify_defs handleMaxRetriesExceeded_def mark_frame
          handleSuccessfulPayment_attempts handleFailedVerification_def recorded_attempts_def
          Let_def split: if_splits option.splits)
  qed
qed

text \<open>
  Claim C2. A payment request created at time \<open>T\<close>, with the maximal verification time
  of 1800000 ms: every \<^verbatim>\<open>verifyPayment\<close> call on its order id at a time \<open>now\<close> with
  \<open>now - T > 1800000\<close> returns false and leaves the payment's status failed, whatever
  proof is supplied and whatever the chain answers; the expiry is decided before the
  attempt counting, whose failure records stay as they were.
\<close>

theorem verifyPayment_expired:
  assumes "payments s oid = Some p" and "timestamp p = T" and "now e - T > 1800000"
  shows "maxVerificationTime retryConfig = 1800000 \<and>
         (\<exists>s'. verifyPayment e oid txHash s = Inr (False, s') \<and>
           getPaymentStatus oid s' = Some failed \<and>
           failedPayments s' = failedPayments s \<and>
           kv (storageService s') = kv (storageService s))"
  using assms
  by (simp add: verify_defs handleExpiredPayment_def hasPaymentExpired_def retryConfig_def
      mark_at mark_frame)

theorem verifyPayment_expired_witness:
  "maxVerificationTime retryConfig = 1800000 \<and>
   (\<exists>s'. verifyPayment (env_at 1800001 1) ''PAY-1'' (Some ''0xfeed'') (ledger1 pending None) = Inr (False, s') \<and>
           getPaymentStatus ''PAY-1'' s' = Some failed \<and>
           failedPayments s' = failedPayments (ledger1 pending None) \<and>
           kv (storageService s') = kv (storageService (ledger1 pending None)))"
  by (rule verifyPayment_expired [where p = "payment0 ''PAY-1'' pending 0" and T = 0])
     (simp_all add: ledger1_def payment0_def env_at_def)

text \<open>
  Claim C6, as amended. For every order id with no payment request in the ledger,
  \<^verbatim>\<open>verifyPayment\<close> catches its own not-found error and resolves to the ordinary result
  false; it leaves the payments and the request store unchanged and records the error in
  the failure records under that order id, with the message \<^verbatim>\<open>Payment not found\<close> and
  the attempt count raised by one (1 for a new record), other records staying as they were.
\<close>

theorem verifyPayment_unknown_order:
  assumes "payments s oid = None"
  shows "\<exists>s' f. verifyPayment e oid txHash s = Inr (False, s') \<and>
           payments s' = payments s \<and> storageService s' = storageService s \<and>
           failedPayments s' oid = Some f \<and>
           err_error f = ''Payment not found: '' @ oid \<and>
           attempts f = recorded_attempts oid s + 1 \<and>
           (\<forall>k. k \<noteq> oid \<longrightarrow> failedPayments s' k = failedPayments s k)"
  using assms
  by (simp add: verify_defs handlePaymentError_def recorded_attempts_def split: option.splits)

theorem verifyPayment_unknown_order_witness:
  "\<exists>s' f. verifyPayment (env_at 5 0) ''PAY-404'' None ledger_empty = Inr (False, s') \<and>
           payments s' = payments ledger_empty \<and> storageService s' = storageService ledger_empty \<and>
           failedPayments s' ''PAY-404'' = Some f \<and>
           err_error f = ''Payment not found: PAY-404'' \<and> attempts f = 1"
proof -
  have "payments ledger_empty ''PAY-404'' = None" by (simp add: ledger_empty_def)
  from verifyPayment_unknown_order [OF this, of "env_at 5 0" None] show ?thesis
    by (auto simp: recorded_attempts_def ledger_empty_def)
qed

text \<open>
  The claim as stated fails on the empty ledger: the call resolves to false instead of
  rejecting, and the ledger gains a failure record.
\<close>

theorem verifyPayment_not_found_counterexample:
  "verifyPayment (env_at 5 0) ''PAY-404'' None ledger_empty =
     Inr (False, ledger_empty\<lparr>failedPayments :=
            [''PAY-404'' \<mapsto> \<lparr>err_orderId = ''PAY-404'', err_error = ''Payment not found: PAY-404'',
                               attempts = 1, lastAttempt = 5\<rparr>]\<rparr>) \<and>
   failedPayments ledger_empty ''PAY-404'' = None"
  by (simp add: verify_defs handlePaymentError_def ledger_empty_def env_at_def)

text \<open>
  Claim C1, as amended. For a payment that has not expired: a false verification result
  observed while fewer than 3 attempts are recorded makes \<^verbatim>\<open>verifyPayment\<close> return
  false and record one more failure attempt, the payments (and so the status) staying as
  they were; and once 3 attempts are recorded, the next \<^verbatim>\<open>verifyPayment\<close> call returns
  false, moves the status to failed and records nothing. The status therefore moves to
  failed on the call that follows the third recorded failure, not on that failure itself.
\<close>

theorem verifyPayment_attempts:
  assumes "payments s oid = Some p" and "\<not> hasPaymentExpired e p"
  shows "maxAttempts retryConfig = 3 \<and>
         (recorded_attempts (orderId p) s < 3 \<and> \<not> fst (isValid e txHash p s) \<longrightarrow>
            (\<exists>s'. verifyPayment e oid txHash s = Inr (False, s') \<and>
                  recorded_attempts (orderId p) s' = recorded_attempts (orderId p) s + 1 \<and>
                  payments s' = payments s)) \<and>
         (recorded_attempts (orderId p) s \<ge> 3 \<longrightarrow>
            (\<exists>s'. verifyPayment e oid txHash s = Inr (False, s') \<and>
                  getPaymentStatus oid s' = Some failed \<and>
                  failedPayments s' = failedPayments s \<and>
                  kv (storageService s') = kv (storageService s)))"
proof -
  obtain v s1 where iv: "isValid e txHash p s = (v, s1)" by (cases "isValid e txHash p s")
  with isValid_frame [of e txHash p s]
  have fr: "payments s1 = payments s" "failedPayments s1 = failedPayments s" by simp_all
  have n: "maxAttempts retryConfig = 3" by (simp add: retryConfig_def)
  have low: "recorded_attempts (orderId p) s < 3 \<and> \<not> fst (isValid e txHash p s) \<longrightarrow>
            (\<exists>s'. verifyPayment e oid txHash s = Inr (False, s') \<and>
                  recorded_attempts (orderId p) s' = recorded_attempts (orderId p) s + 1 \<and>
                  payments s' = payments s)"
    using assms iv fr
    by (auto simp: verify_defs n handleFailedVerification_def recorded_attempts_def
        split: option.splits)
  have high: "recorded_attempts (orderId p) s \<ge> 3 \<longrightarrow>
            (\<exists>s'. verifyPayment e oid txHash s = Inr (False, s') \<and>
                  getPaymentStatus oid s' = Some failed \<and>
                  failedPayments s' = failedPayments s \<and>
                  kv (storageService s') = kv (storageService s))"
    using assms
    by (simp add: verify_defs n handleMaxRetriesExceeded_def mark_at mark_frame)
  from n low high show ?thesis by blast
qed

theorem verifyPayment_attempts_witness:
  "(\<exists>s'. verifyPayment (env_at 1000 0) ''PAY-1'' None (ledger1 pending (Some 2)) = Inr (False, s') \<and>
         recorded_attempts ''PAY-1'' s' = 3 \<and>
         payments s' = payments (ledger1 pending (Some 2))) \<and>
   (\<exists>s'. verifyPayment (env_at 1000 0) ''PAY-1'' None (ledger1 pending (Some 3)) = Inr (False, s') \<and>
         getPaymentStatus ''PAY-1'' s' = Some failed)"
proof -
  let ?p = "payment0 ''PAY-1'' pending 0"
  have p2: "payments (ledger1 pending (Some 2)) ''PAY-1'' = Some ?p"
    and p3: "payments (ledger1 pending (Some 3)) ''PAY-1'' = Some ?p"
    by (simp_all add: ledger1_def)
  have ne: "\<not> hasPaymentExpired (env_at 1000 0) ?p"
    by (simp add: hasPaymentExpired_def env_at_def payment0_def retryConfig_def)
  have inv: "\<not> fst (isValid (env_at 1000 0) None ?p (ledger1 pending (Some 2)))"
    by (simp add: balance_facts env_at_def ledger1_def payment0_def)
  have a2: "recorded_attempts (orderId ?p) (ledger1 pending (Some 2)) = 2"
    and a3: "recorded_attempts (orderId ?p) (ledger1 pending (Some 3)) = 3"
    by (simp_all add: recorded_attempts_def ledger1_def payment0_def)
  have oid: "orderId ?p = ''PAY-1''" by (simp add: payment0_def)
  from verifyPayment_attempts [OF p2 ne, of None] inv a2 oid
  have first: "\<exists>s'. verifyPayment (env_at 1000 0) ''PAY-1'' None (ledger1 pending (Some 2)) = Inr (False, s') \<and>
         recorded_attempts ''PAY-1'' s' = 3 \<and>
         payments s' = payments (ledger1 pending (Some 2))"
    by simp
  from verifyPayment_attempts [OF p3 ne, of None] a3 oid
  have second: "\<exists>s'. verifyPayment (env_at 1000 0) ''PAY-1'' None (ledger1 pending (Some 3)) = Inr (False, s') \<and>
         getPaymentStatus ''PAY-1'' s' = Some failed"
    by auto
  from first second show ?thesis by blast
qed

text \<open>
  The claim as stated fails on a fresh pending payment: after three failed verifications
  three attempts are recorded and the status is still pending.
\<close>

theorem third_failure_still_pending_counterexample:
  "getPaymentStatus ''PAY-1''
     (run_ops [Verify (env_at 1000 0) ''PAY-1'' None, Verify (env_at 2000 0) ''PAY-1'' None,
               Verify (env_at 3000 0) ''PAY-1'' None] (ledger1 pending None)) = Some pending \<and>
   recorded_attempts ''PAY-1''
     (run_ops [Verify (env_at 1000 0) ''PAY-1'' None, Verify (env_at 2000 0) ''PAY-1'' None,
               Verify (env_at 3000 0) ''PAY-1'' None] (ledger1 pending None)) = 3"
  by code_simp

text \<open>
  Claim C8, as amended. For every payment request and every sequence of
  \<^verbatim>\<open>verifyPayment\<close> and \<^verbatim>\<open>retryFailedPayment\<close> calls, a status that is not pending never
  becomes pending again: there is no step from failed to pending, not even through
  \<^verbatim>\<open>retryFailedPayment\<close>. That call, without a failure record, returns false and changes
  nothing; with one, it resets the attempt counter to 0 and runs \<^verbatim>\<open>verifyPayment\<close>, after
  which at most one attempt is recorded and a payment that was failed is failed or
  completed.
\<close>

theorem status_never_returns_to_pending:
  "(getPaymentStatus k s \<noteq> Some pending \<longrightarrow> getPaymentStatus k (run_ops xs s) \<noteq> Some pending) \<and>
   (failedPayments s oid = None \<longrightarrow> retryFailedPayment e oid s = Inr (False, s)) \<and>
   (failedPayments s oid \<noteq> None \<longrightarrow>
      (\<exists>b s'. retryFailedPayment e oid s = Inr (b, s') \<and> recorded_attempts oid s' \<le> 1 \<and>
              (getPaymentStatus oid s = Some failed \<longrightarrow>
                 getPaymentStatus oid s' = Some failed \<or> getPaymentStatus oid s' = Some completed)))"
proof (intro conjI impI)
  assume "getPaymentStatus k s \<noteq> Some pending"
  then show "getPaymentStatus k (run_ops xs s) \<noteq> Some pending"
    by (rule run_ops_no_return_to_pending)
next
  assume "failedPayments s oid = None"
  then show "retryFailedPayment e oid s = Inr (False, s)"
    by (simp add: retryFailedPayment_def)
next
  assume "failedPayments s oid \<noteq> None"
  then obtain f where f: "failedPayments s oid = Some f" by blast
  let ?s = "s\<lparr>failedPayments := (failedPayments s)(oid \<mapsto> f\<lparr>attempts := 0\<rparr>)\<rparr>"
  from verifyPayment_resolves [of e oid None ?s] obtain b s'
    where r: "verifyPayment e oid None ?s = Inr (b, s')" by blast
  have zero: "recorded_attempts oid ?s = 0" by (simp add: recorded_attempts_def)
  have le: "recorded_attempts oid s' \<le> 1"
    by (rule attempts_after_reset_le_1 [OF r zero])
  have st: "getPaymentStatus oid s = Some failed \<longrightarrow>
      getPaymentStatus oid s' = Some failed \<or> getPaymentStatus oid s' = Some completed"
  proof
    assume "getPaymentStatus oid s = Some failed"
    then have "getPaymentStatus oid ?s = Some failed" by (simp add: getPaymentStatus_def)
    with verifyPayment_step [OF r, of oid]
    show "getPaymentStatus oid s' = Some failed \<or> getPaymentStatus oid s' = Some completed"
      by auto
  qed
  from f r le st show "\<exists>b s'. retryFailedPayment e oid s = Inr (b, s') \<and> recorded_attempts oid s' \<le> 1 \<and>
              (getPaymentStatus oid s = Some failed \<longrightarrow>
                 getPaymentStatus oid s' = Some failed \<or> getPaymentStatus oid s' = Some completed)"
    by (simp add: retryFailedPayment_def)
qed

theorem status_never_returns_to_pending_witness:
  "getPaymentStatus ''PAY-1''
     (run_ops [Retry (env_at 1000 1) ''PAY-1'', Verify (env_at 1800001 1) ''PAY-1'' None]
        (ledger1 failed (Some 3))) \<noteq> Some pending \<and>
   retryFailedPayment (env_at 1000 1) ''PAY-1'' (ledger1 pending None) = Inr (False, ledger1 pending None) \<and>
   (\<exists>b s'. retryFailedPayment (env_at 1000 1) ''PAY-1'' (ledger1 failed (Some 3)) = Inr (b, s') \<and>
           recorded_attempts ''PAY-1'' s' \<le> 1 \<and>
           (getPaymentStatus ''PAY-1'' s' = Some failed \<or> getPaymentStatus ''PAY-1'' s' = Some completed))"
proof -
  have h1: "getPaymentStatus ''PAY-1'' (ledger1 failed (Some 3)) \<noteq> Some pending"
    and h2: "failedPayments (ledger1 pending None) ''PAY-1'' = None"
    and h3: "failedPayments (ledger1 failed (Some 3)) ''PAY-1'' \<noteq> None"
    and h4: "getPaymentStatus ''PAY-1'' (ledger1 failed (Some 3)) = Some failed"
    by (simp_all add: getPaymentStatus_def ledger1_def payment0_def)
  from status_never_returns_to_pending [of "''PAY-1''" "ledger1 failed (Some 3)"
      "[Retry (env_at 1000 1) ''PAY-1'', Verify (env_at 1800001 1) ''PAY-1'' None]"
      "''PAY-1''" "env_at 1000 1"] h1 h3 h4
  have a: "getPaymentStatus ''PAY-1''
     (run_ops [Retry (env_at 1000 1) ''PAY-1'', Verify (env_at 1800001 1) ''PAY-1'' None]
        (ledger1 failed (Some 3))) \<noteq> Some pending"
    and c: "\<exists>b s'. retryFailedPayment (env_at 1000 1) ''PAY-1'' (ledger1 failed (Some 3)) = Inr (b, s') \<and>
           recorded_attempts ''PAY-1'' s' \<le> 1 \<and>
           (getPaymentStatus ''PAY-1'' s' = Some failed \<or> getPaymentStatus ''PAY-1'' s' = Some completed)"
    by blast+
  from status_never_returns_to_pending [of "''PAY-1''" "ledger1 pending None" "[]"
      "''PAY-1''" "env_at 1000 1"] h2
  have b: "retryFailedPayment (env_at 1000 1) ''PAY-1'' (ledger1 pending None) = Inr (False, ledger1 pending None)"
    by blast
  from a b c show ?thesis by blast
qed

text \<open>
  The claim as stated fails twice: \<^verbatim>\<open>verifyPayment\<close> moves a completed payment to failed
  once its verification time has passed, and \<^verbatim>\<open>retryFailedPayment\<close> moves a failed
  payment to completed, never to pending.
\<close>

theorem status_moves_counterexample:
  "getPaymentStatus ''PAY-1'' (ledger1 completed None) = Some completed \<and>
   getPaymentStatus ''PAY-1''
     (apply_op (Verify (env_at 1800001 0) ''PAY-1'' None) (ledger1 completed None)) = Some failed \<and>
   getPaymentStatus ''PAY-1'' (ledger1 failed (Some 3)) = Some failed \<and>
   getPaymentStatus ''PAY-1''
     (apply_op (Retry (env_at 1000 1) ''PAY-1'') (ledger1 failed (Some 3))) = Some completed"
  by code_simp

section \<open>PaymentService: the two verifications\<close>

lemma dgt_one_ether: "dgt (ether_of_wei 1000000000000000000) (Fin 0) = True"
  by code_simp

lemma one_ether_not_within: "within_tolerance (ether_of_wei 1000000000000000000) (ddiv (round64 10) (Fin 2000)) = False"
  by code_simp

lemma expected_within: "within_tolerance (ether_of_wei 5000000000000000) (ddiv (round64 10) (Fin 2000)) = True"
  by code_simp

lemma lower_case_address: "toLowerCase ''0xABC1'' = toLowerCase ''0xAbC1''"
  by code_simp

text \<open>
  Claim C7. The claim asks that an address-balance verification accept a payment exactly
  when the observed balance increase is within 5% of the expected amount. The code does
  not do that: the answer of \<^verbatim>\<open>checkPaymentAddresses\<close> is the same for every expected
  amount. With a storage that answers, a balance that rises from 0 to 1 ether is accepted
  for an expected 0.005 ether, and \<^verbatim>\<open>verifyPayment\<close> completes the payment; the
  verification of a transaction proof, the other branch of the same conditional, rejects
  that value and accepts one of 0.005 ether. With the storage class as shipped, whose
  read raises, a balance that rose by exactly 0.005 ether is rejected.
\<close>

theorem balance_check_ignores_amount:
  "checkPaymentAddresses e (p\<lparr>amount := a\<rparr>) st = checkPaymentAddresses e p st \<and>
   fst (checkPaymentAddresses (env_at 1000 1000000000000000000) (payment0 ''PAY-1'' pending 0)
          storage_empty) \<and>
   getPaymentStatus ''PAY-1''
     (apply_op (Verify (env_at 1000 1000000000000000000) ''PAY-1'' None) (ledger1 pending None))
     = Some completed \<and>
   \<not> verifyEthereumTransaction (env_tx 1000000000000000000) ''0xfeed'' (payment0 ''PAY-1'' pending 0) \<and>
   verifyEthereumTransaction (env_tx 5000000000000000) ''0xfeed'' (payment0 ''PAY-1'' pending 0) \<and>
   \<not> fst (checkPaymentAddresses (env_no_storage 5000000000000000) (payment0 ''PAY-1'' pending 0)
            storage_empty)"
proof (intro conjI)
  show "checkPaymentAddresses e (p\<lparr>amount := a\<rparr>) st = checkPaymentAddresses e p st"
    by (simp add: checkPaymentAddresses_def)
  show accepted: "fst (checkPaymentAddresses (env_at 1000 1000000000000000000) (payment0 ''PAY-1'' pending 0)
          storage_empty)"
    by (simp add: checkPaymentAddresses_def getValue_def setValue_def parseFloat_or_0_def
        env_at_def storage_empty_def dgt_one_ether)
  show "getPaymentStatus ''PAY-1''
     (apply_op (Verify (env_at 1000 1000000000000000000) ''PAY-1'' None) (ledger1 pending None))
     = Some completed"
    by (simp add: state_after_def verifyPayment_def verifyPayment_try_def retryVerification_def
        hasPaymentExpired_def retryConfig_def recorded_attempts_def isValid_def
        checkPaymentAddresses_def getValue_def setValue_def parseFloat_or_0_def dgt_one_ether
        handleSuccessfulPayment_def set_status_def storage_update_def updatePaymentStatus_def
        assign_in_ledger_def assign_in_store_def Let_def getPaymentStatus_def env_at_def ledger1_def
        payment0_def request0_def)
  show "\<not> verifyEthereumTransaction (env_tx 1000000000000000000) ''0xfeed'' (payment0 ''PAY-1'' pending 0)"
    by (simp add: verifyEthereumTransaction_def env_tx_def payment0_def wallets0_def
        getEtherPrice_def lower_case_address one_ether_not_within)
  show "verifyEthereumTransaction (env_tx 5000000000000000) ''0xfeed'' (payment0 ''PAY-1'' pending 0)"
    by (simp add: verifyEthereumTransaction_def env_tx_def payment0_def wallets0_def
        getEtherPrice_def lower_case_address expected_within)
  show "\<not> fst (checkPaymentAddresses (env_no_storage 5000000000000000) (payment0 ''PAY-1'' pending 0)
            storage_empty)"
    by (simp add: checkPaymentAddresses_def getValue_def env_no_storage_def)
qed


section \<open>RecoverySystem: checkpoints\<close>














end
